theory Spec2Isabelle
  imports Main "HOL-Library.Sublist"
begin

section \<open>Generation Request Client (services/geminiService.ts)\<close>

text \<open>
  JavaScript strings are modelled as \<open>string\<close>: one \<open>char\<close> per code unit, restricted
  to the code units below 256. A thrown \<open>Error\<close> is the left summand of a sum, carrying the
  error's message.
\<close>

text \<open>
  \<open>getClient\<close>: \<open>process.env.API_KEY\<close> is \<open>None\<close> when the variable is undefined;
  \<open>!apiKey\<close> also holds for the empty string.
\<close>

definition getClient :: "string option \<Rightarrow> string + string" where
  "getClient apiKey =
     (case apiKey of
        None \<Rightarrow> Inl ''API Key not found in environment variables''
      | Some k \<Rightarrow> if k = [] then Inl ''API Key not found in environment variables'' else Inr k)"

text \<open>
  The regular expression \<open>/^data:(.+);base64,(.+)$/\<close>. Without flags, \<open>.\<close> matches
  every character that is no line terminator (LF and CR among the modelled characters) and
  \<open>$\<close> matches at the end of the input only. Both groups are greedy, so the first group
  extends to the last separator that leaves a non-empty second group.
\<close>

definition lineTerminator :: "char \<Rightarrow> bool" where
  "lineTerminator c = (c = CHR 0x0A \<or> c = CHR 0x0D)"

fun splitBase64 :: "string \<Rightarrow> string \<Rightarrow> (string \<times> string) option" where
  "splitBase64 pre [] = None"
| "splitBase64 pre (c # cs) =
     (case splitBase64 (pre @ [c]) cs of
        Some r \<Rightarrow> Some r
      | None \<Rightarrow>
          if pre \<noteq> [] \<and> take 8 (c # cs) = '';base64,'' \<and> drop 8 (c # cs) \<noteq> []
          then Some (pre, drop 8 (c # cs)) else None)"

definition matchDataUrl :: "string \<Rightarrow> (string \<times> string) option" where
  "matchDataUrl s =
     (if take 5 s = ''data:'' \<and> \<not> list_ex lineTerminator s
      then splitBase64 [] (drop 5 s) else None)"

datatype part = Text string | InlineData string string

text \<open>
  The argument of \<open>ai.models.generateContent\<close>. \<open>imageConfig\<close> holds
  \<open>(imageSize, aspectRatio)\<close>; \<open>editImage\<close> passes no config.
\<close>

record request =
  model :: string
  contents :: "part list"
  imageConfig :: "(string \<times> string) option"

text \<open>
  One part of \<open>response.candidates[0].content.parts\<close>: \<open>inlineData\<close> with its optional
  \<open>mimeType\<close> and its \<open>data\<close>, and \<open>text\<close> (the field \<open>partText\<close>).
\<close>

record responsePart =
  inlineData :: "(string option \<times> string) option"
  partText :: "string option"

text \<open>
  What lies outside the repository is a parameter: the environment's API key, the remote
  service (it throws a message, or answers with the parts of its first candidate, \<open>None\<close>
  when the optional chain is undefined), and the outcome of the \<open>try\<close> block that looks for
  a JSON payload in an error message (\<open>Some m\<close> when it assigns \<open>m\<close>).
\<close>

record service =
  apiKey :: "string option"
  remote :: "request \<Rightarrow> string + responsePart list option"
  jsonMessage :: "string \<Rightarrow> string option"

text \<open>The \<open>catch\<close> block shared by both operations: the message of the error it rethrows.\<close>

definition rethrow :: "service \<Rightarrow> string \<Rightarrow> string" where
  "rethrow sv message =
     (let errorMessage = (if message = [] then ''Unknown error occurred'' else message)
      in if CHR ''{'' \<in> set errorMessage \<or> CHR ''['' \<in> set errorMessage
         then (case jsonMessage sv errorMessage of Some m \<Rightarrow> m | None \<Rightarrow> errorMessage)
         else errorMessage)"

text \<open>The loop over the response parts: the first part with non-empty inline data.\<close>

fun firstImage :: "responsePart list \<Rightarrow> string option" where
  "firstImage [] = None"
| "firstImage (p # ps) =
     (case inlineData p of
        Some (mime, d) \<Rightarrow>
          if d \<noteq> [] then
            Some (''data:'' @ (case mime of None \<Rightarrow> ''image/png''
                               | Some m \<Rightarrow> if m = [] then ''image/png'' else m)
                  @ '';base64,'' @ d)
          else firstImage ps
      | None \<Rightarrow> firstImage ps)"

text \<open>\<open>parts.find(p => p.text)\<close>, returning the text of the part found.\<close>

fun findText :: "responsePart list \<Rightarrow> string option" where
  "findText [] = None"
| "findText (p # ps) =
     (case partText p of
        Some t \<Rightarrow> if t \<noteq> [] then Some t else findText ps
      | None \<Rightarrow> findText ps)"

text \<open>The tail of both operations, from the response to the returned image or thrown message.\<close>

definition readResponse :: "responsePart list option \<Rightarrow> string + string" where
  "readResponse resp =
     (case firstImage (case resp of None \<Rightarrow> [] | Some ps \<Rightarrow> ps) of
        Some img \<Rightarrow> Inr img
      | None \<Rightarrow>
          (case findText (case resp of None \<Rightarrow> [] | Some ps \<Rightarrow> ps) of
             Some t \<Rightarrow> Inl t
           | None \<Rightarrow> Inl ''No image data found in response''))"

definition awaitResponse :: "service \<Rightarrow> request \<Rightarrow> string + string" where
  "awaitResponse sv req =
     (case (case remote sv req of Inl m \<Rightarrow> Inl m | Inr resp \<Rightarrow> readResponse resp) of
        Inl m \<Rightarrow> Inl (rethrow sv m)
      | Inr img \<Rightarrow> Inr img)"

fun imageParts :: "string list \<Rightarrow> part list" where
  "imageParts [] = []"
| "imageParts (imgData # rest) =
     (case matchDataUrl imgData of
        Some (mime, d) \<Rightarrow> InlineData mime d # imageParts rest
      | None \<Rightarrow> imageParts rest)"

definition validRatios :: "string list" where
  "validRatios = [''1:1'', ''3:4'', ''4:3'', ''9:16'', ''16:9'', ''21:9'']"

text \<open>
  \<open>generateImage\<close> and \<open>editImage\<close> return the requests they dispatched to the remote
  service, in order, and the outcome of the promise.
\<close>

definition generateImage ::
  "service \<Rightarrow> string \<Rightarrow> string list \<Rightarrow> string \<Rightarrow> string \<Rightarrow> request list \<times> (string + string)" where
  "generateImage sv prompt referenceImages resolution aspectRatio =
     (case getClient (apiKey sv) of
        Inl m \<Rightarrow> ([], Inl (rethrow sv m))
      | Inr ai \<Rightarrow>
          (let parts = Text prompt # imageParts (take 2 referenceImages);
               finalAspectRatio = (if aspectRatio \<in> set validRatios then aspectRatio else ''1:1'');
               req = \<lparr>model = ''gemini-3-pro-image-preview'', contents = parts,
                      imageConfig = Some (resolution, finalAspectRatio)\<rparr>
           in ([req], awaitResponse sv req)))"

definition editImage :: "service \<Rightarrow> string \<Rightarrow> string \<Rightarrow> request list \<times> (string + string)" where
  "editImage sv prompt inputImageBase64 =
     (case getClient (apiKey sv) of
        Inl m \<Rightarrow> ([], Inl (rethrow sv m))
      | Inr ai \<Rightarrow>
          (case matchDataUrl inputImageBase64 of
             None \<Rightarrow> ([], Inl (rethrow sv ''Invalid image data format''))
           | Some (mime, d) \<Rightarrow>
               (let req = \<lparr>model = ''gemini-2.5-flash-image'',
                           contents = [Text prompt, InlineData mime d],
                           imageConfig = None\<rparr>
                in ([req], awaitResponse sv req))))"


section \<open>Durable History Store (IndexedDB helpers of the TextGenerator component)\<close>

record GeneratedImage =
  url :: string
  prompt :: string
  timestamp :: int

text \<open>
  A value held in the store under the key \<open>'recent'\<close> is JavaScript data: an element of the
  stored array is a bare string (the legacy schema) or an object with \<open>url\<close>, \<open>prompt\<close>
  and \<open>timestamp\<close>. The \<open>url\<close> of such an object is again a value, since the migration
  wraps whatever element it finds.
\<close>

datatype stored = Bare string | Structured stored string int

fun isString :: "stored \<Rightarrow> bool" where
  "isString (Bare u) = True"
| "isString (Structured u p ts) = False"

text \<open>
  The outcome of opening the database and reading the key: \<open>initDB\<close> rejects, the request
  fails, or it succeeds with \<open>req.result\<close> (\<open>None\<close> when nothing is stored).
\<close>

datatype dbRead = OpenFailed | ReadFailed | ReadOk "stored list option"

text \<open>
  \<open>getHistoryFromDB\<close>. \<open>Date.now()\<close> is called once per migrated element; \<open>now i\<close> is the
  clock at the call for the element at index \<open>i\<close>.
\<close>

definition getHistoryFromDB :: "(nat \<Rightarrow> int) \<Rightarrow> dbRead \<Rightarrow> stored list" where
  "getHistoryFromDB now r =
     (case r of
        OpenFailed \<Rightarrow> []
      | ReadFailed \<Rightarrow> []
      | ReadOk v \<Rightarrow>
          (let result = (case v of None \<Rightarrow> [] | Some xs \<Rightarrow> xs)
           in case result of
                [] \<Rightarrow> result
              | first # rest \<Rightarrow>
                  if isString first
                  then map (\<lambda>(i, u). Structured u ''Legacy Image'' (now i)) (enumerate 0 result)
                  else result))"

section \<open>Main Studio Controller and Edit Session (the TextGenerator component)\<close>

text \<open>\<open>String.prototype.trim\<close>: white space and line terminators among the modelled characters.\<close>

definition whiteSpace :: "char \<Rightarrow> bool" where
  "whiteSpace c = (c \<in> {CHR 0x09, CHR 0x0A, CHR 0x0B, CHR 0x0C, CHR 0x0D, CHR 0x20, CHR 0xA0})"

definition trim :: "string \<Rightarrow> string" where
  "trim s = rev (dropWhile whiteSpace (rev (dropWhile whiteSpace s)))"

text \<open>The interface \<open>UploadedImage\<close>, with fields \<open>url\<close> and \<open>size\<close>.\<close>

record UploadedImage =
  uploadUrl :: string
  uploadSize :: string

text \<open>
  The component's \<open>useState\<close> cells, in the order of the source; \<open>promptText\<close> is the cell
  \<open>prompt\<close>. \<open>historyRef\<close> is not in the source: it identifies the array object held in
  \<open>history\<close>, which React compares by reference when it decides whether an effect with
  \<open>history\<close> among its dependencies runs. Every \<open>setHistory\<close> of the source stores a
  freshly built array, so every one of them changes \<open>historyRef\<close>.
\<close>

record studio =
  promptText :: string
  image :: "GeneratedImage option"
  previewImage :: "GeneratedImage option"
  history :: "GeneratedImage list"
  historyRef :: nat
  isHistoryLoaded :: bool
  uploadedImages :: "UploadedImage list"
  resolution :: string
  aspectRatio :: string
  loading :: bool
  error :: "string option"
  isEditSidebarOpen :: bool
  editingImage :: "GeneratedImage option"
  editPrompt :: string
  isEditing :: bool
  showClearDialog :: bool
  showDeleteDialog :: bool
  imageToDelete :: "GeneratedImage option"
  showToast :: bool
  showGenSuccessToast :: bool
  showEditSuccessToast :: bool
  showWarningToast :: bool
  warningMsg :: string
  showErrorToast :: bool

definition initial :: studio where
  "initial =
     \<lparr>promptText = [], image = None, previewImage = None, history = [], historyRef = 0,
      isHistoryLoaded = False, uploadedImages = [], resolution = ''1K'', aspectRatio = ''1:1'',
      loading = False, error = None, isEditSidebarOpen = False, editingImage = None,
      editPrompt = [], isEditing = False, showClearDialog = False, showDeleteDialog = False,
      imageToDelete = None, showToast = False, showGenSuccessToast = False,
      showEditSuccessToast = False, showWarningToast = False, warningMsg = [],
      showErrorToast = False\<rparr>"

text \<open>The callbacks handed to \<open>setTimeout\<close>.\<close>

datatype timer =
  HideWarning | ResetWarning | HideGenSuccess | HideEditSuccess | HideError | ServerBusy

text \<open>
  What a handler does besides updating the state: a call into the Generation Request
  Client, a timer, a write to the store (\<open>ClearStore\<close> is the attempt to clear it).
\<close>

datatype effect =
  CallGenerateImage string "string list" string string
| CallEditImage string string
| SetTimeout nat timer
| ClearTimeout
| SaveHistoryToDB "GeneratedImage list"
| ClearStore

definition setHistory :: "GeneratedImage list \<Rightarrow> studio \<Rightarrow> studio" where
  "setHistory h s = s\<lparr>history := h, historyRef := Suc (historyRef s)\<rparr>"

text \<open>\<open>attemptCloseSidebar\<close>; \<open>t\<close> is the translation function of the language context.\<close>

definition attemptCloseSidebar :: "(string \<Rightarrow> string) \<Rightarrow> studio \<Rightarrow> studio \<times> effect list" where
  "attemptCloseSidebar t s =
     (if isEditing s
      then (s\<lparr>warningMsg := t ''waitEditCompletion'', showWarningToast := True\<rparr>,
            [SetTimeout 5000 ResetWarning])
      else (s\<lparr>isEditSidebarOpen := False\<rparr>, []))"

text \<open>
  \<open>handleGenerate\<close> is asynchronous. \<open>handleGenerate\<close> below is its run up to the
  \<open>await\<close>; \<open>handleGenerateFulfilled\<close> and \<open>handleGenerateRejected\<close> are its run after the
  promise of \<open>generateImage\<close> settles, the \<open>finally\<close> block included. The continuation
  reads \<open>prompt\<close> from the closure of the call, so it is an argument; \<open>now\<close> is
  \<open>Date.now()\<close>.
\<close>

definition handleGenerate :: "studio \<Rightarrow> studio \<times> effect list" where
  "handleGenerate s =
     (if trim (promptText s) = [] then (s, [])
      else (s\<lparr>loading := True, error := None, showErrorToast := False\<rparr>,
            [CallGenerateImage (promptText s) (map uploadUrl (uploadedImages s))
               (resolution s) (aspectRatio s)]))"

definition handleGenerateFulfilled ::
  "string \<Rightarrow> string \<Rightarrow> int \<Rightarrow> studio \<Rightarrow> studio \<times> effect list" where
  "handleGenerateFulfilled prompt0 url0 now s =
     (let newImage = \<lparr>url = url0, prompt = prompt0, timestamp = now\<rparr>;
          s1 = s\<lparr>image := Some newImage\<rparr>;
          s2 = setHistory (take 10 (newImage # history s1)) s1;
          s3 = s2\<lparr>showGenSuccessToast := True\<rparr>
      in (s3\<lparr>loading := False\<rparr>, [SetTimeout 5000 HideGenSuccess]))"

definition handleGenerateRejected ::
  "(string \<Rightarrow> string) \<Rightarrow> string \<Rightarrow> studio \<Rightarrow> studio \<times> effect list" where
  "handleGenerateRejected t message s =
     (let errorMessage = (if message = [] then t ''errorGen'' else message)
      in (s\<lparr>error := Some errorMessage, showErrorToast := True, loading := False\<rparr>,
          [SetTimeout 5000 HideError]))"

text \<open>
  \<open>executeEdit\<close>, split in the same way. Its continuation reads \<open>editPrompt\<close> and
  \<open>previewImage\<close> from the closure of the call.
\<close>

definition executeEdit :: "studio \<Rightarrow> studio \<times> effect list" where
  "executeEdit s =
     (case editingImage s of
        None \<Rightarrow> (s, [])
      | Some target \<Rightarrow>
          if trim (editPrompt s) = [] then (s, [])
          else (s\<lparr>isEditing := True, error := None\<rparr>,
                [CallEditImage (editPrompt s) (url target)]))"

definition executeEditFulfilled ::
  "string \<Rightarrow> GeneratedImage option \<Rightarrow> string \<Rightarrow> int \<Rightarrow> studio \<Rightarrow> studio \<times> effect list" where
  "executeEditFulfilled editPrompt0 previewImage0 newImageUrl now s =
     (let newImage = \<lparr>url = newImageUrl, prompt = ''Edit: '' @ editPrompt0, timestamp = now\<rparr>;
          s1 = s\<lparr>promptText := [], resolution := ''1K'', aspectRatio := ''1:1'',
                 uploadedImages := [], image := None, editPrompt := []\<rparr>;
          s2 = setHistory (take 10 (newImage # history s1)) s1;
          s3 = s2\<lparr>editingImage := Some newImage\<rparr>;
          s4 = (if previewImage0 \<noteq> None then s3\<lparr>previewImage := Some newImage\<rparr> else s3);
          s5 = s4\<lparr>showEditSuccessToast := True\<rparr>
      in (s5\<lparr>isEditing := False\<rparr>, [SetTimeout 5000 HideEditSuccess]))"

definition executeEditRejected ::
  "(string \<Rightarrow> string) \<Rightarrow> string \<Rightarrow> studio \<Rightarrow> studio \<times> effect list" where
  "executeEditRejected t message s =
     (let errorMessage = (if message = [] then t ''errorGen'' else message)
      in (s\<lparr>error := Some errorMessage, showErrorToast := True, isEditing := False\<rparr>,
          [SetTimeout 5000 HideError]))"

text \<open>
  The triggers of the two operations. A disabled button delivers no click: the generate
  button has \<open>disabled = !prompt.trim() || loading\<close> and \<open>isLoading = loading\<close>, and the
  button component disables itself when either holds; the edit button is rendered only
  with a target image, with \<open>disabled = !editPrompt.trim()\<close> and \<open>isLoading = isEditing\<close>.
\<close>

definition clickGenerate :: "studio \<Rightarrow> studio \<times> effect list" where
  "clickGenerate s =
     (if (trim (promptText s) = [] \<or> loading s) \<or> loading s then (s, [])
      else handleGenerate s)"

definition clickStartEdit :: "studio \<Rightarrow> studio \<times> effect list" where
  "clickStartEdit s =
     (if editingImage s = None then (s, [])
      else if trim (editPrompt s) = [] \<or> isEditing s then (s, [])
      else executeEdit s)"

text \<open>The \<open>keydown\<close> listeners: Ctrl+Enter (or Cmd+Enter) and Escape.\<close>

definition keyCtrlEnter :: "studio \<Rightarrow> studio \<times> effect list" where
  "keyCtrlEnter s =
     (if isEditSidebarOpen s
      then (if trim (editPrompt s) \<noteq> [] \<and> editingImage s \<noteq> None \<and> \<not> isEditing s
            then executeEdit s else (s, []))
      else (if trim (promptText s) \<noteq> [] \<and> \<not> loading s
            then handleGenerate s else (s, [])))"

definition keyEscape :: "(string \<Rightarrow> string) \<Rightarrow> studio \<Rightarrow> studio \<times> effect list" where
  "keyEscape t s =
     (if isEditSidebarOpen s then attemptCloseSidebar t s
      else if previewImage s \<noteq> None then (s\<lparr>previewImage := None\<rparr>, [])
      else (s, []))"

text \<open>The remaining handlers that touch the history, the staging list or the edit session.\<close>

definition handleEdit :: "GeneratedImage \<Rightarrow> studio \<Rightarrow> studio \<times> effect list" where
  "handleEdit img s = (s\<lparr>editingImage := Some img, editPrompt := [], isEditSidebarOpen := True\<rparr>, [])"

definition handleRemoveImage :: "nat \<Rightarrow> studio \<Rightarrow> studio \<times> effect list" where
  "handleRemoveImage index s =
     (s\<lparr>uploadedImages :=
          map snd (filter (\<lambda>(i, img). i \<noteq> index) (enumerate 0 (uploadedImages s)))\<rparr>, [])"

definition handleClearClick :: "studio \<Rightarrow> studio \<times> effect list" where
  "handleClearClick s = (s\<lparr>showClearDialog := True\<rparr>, [])"

definition confirmClearHistory :: "studio \<Rightarrow> studio \<times> effect list" where
  "confirmClearHistory s = (setHistory [] s, [ClearStore])"

definition handleDeleteClick :: "GeneratedImage \<Rightarrow> studio \<Rightarrow> studio \<times> effect list" where
  "handleDeleteClick img s = (s\<lparr>imageToDelete := Some img, showDeleteDialog := True\<rparr>, [])"

definition confirmDelete :: "studio \<Rightarrow> studio \<times> effect list" where
  "confirmDelete s =
     (case imageToDelete s of
        None \<Rightarrow> (s, [])
      | Some target \<Rightarrow>
          ((setHistory (filter (\<lambda>item. timestamp item \<noteq> timestamp target) (history s)) s)
             \<lparr>imageToDelete := None\<rparr>, []))"

text \<open>
  The function \<open>load\<close> of the mount effect, after \<open>getHistoryFromDB\<close> has resolved with
  \<open>savedItems\<close>.
\<close>

definition loadResolved :: "GeneratedImage list \<Rightarrow> studio \<Rightarrow> studio \<times> effect list" where
  "loadResolved savedItems s =
     ((if savedItems \<noteq> [] then setHistory (take 10 savedItems) s else s)
        \<lparr>isHistoryLoaded := True\<rparr>, [])"

definition timerFired :: "timer \<Rightarrow> studio \<Rightarrow> studio \<times> effect list" where
  "timerFired k s =
     (case k of
        HideWarning \<Rightarrow> (s\<lparr>showWarningToast := False\<rparr>, [])
      | ResetWarning \<Rightarrow> (s\<lparr>showWarningToast := False, warningMsg := []\<rparr>, [])
      | HideGenSuccess \<Rightarrow> (s\<lparr>showGenSuccessToast := False\<rparr>, [])
      | HideEditSuccess \<Rightarrow> (s\<lparr>showEditSuccessToast := False\<rparr>, [])
      | HideError \<Rightarrow> (s\<lparr>showErrorToast := False\<rparr>, [])
      | ServerBusy \<Rightarrow> (s\<lparr>showWarningToast := True\<rparr>, [SetTimeout 5000 HideWarning]))"

text \<open>
  The effects that React runs after the render that follows a state change:
  the save effect, with dependencies \<open>[history, isHistoryLoaded]\<close>, and the loading
  effect, with dependency \<open>[loading]\<close>.
\<close>

definition saveEffect :: "studio \<Rightarrow> studio \<Rightarrow> effect list" where
  "saveEffect old new =
     (if historyRef new \<noteq> historyRef old \<or> isHistoryLoaded new \<noteq> isHistoryLoaded old
      then (if isHistoryLoaded new then [SaveHistoryToDB (history new)] else [])
      else [])"

definition loadingEffect :: "studio \<Rightarrow> studio \<Rightarrow> studio \<times> effect list" where
  "loadingEffect old new =
     (if loading new \<noteq> loading old
      then (if loading new then (new, [SetTimeout 30000 ServerBusy])
            else (new\<lparr>showWarningToast := False\<rparr>, [ClearTimeout]))
      else (new, []))"

definition afterRender :: "studio \<Rightarrow> studio \<Rightarrow> studio \<times> effect list" where
  "afterRender old new =
     (let (new', timers) = loadingEffect old new
      in (new', saveEffect old new @ timers))"

text \<open>
  The component as a machine: one step per event of the single-threaded event loop, the
  handler first, then the effects of the render it causes. A handler reads the state of
  the latest render.
\<close>

datatype event =
  ClickGenerate
| KeyCtrlEnter
| KeyEscape
| ClickClose
| GenerateFulfilled string string int
| GenerateRejected string
| ClickStartEdit
| EditFulfilled string "GeneratedImage option" string int
| EditRejected string
| LoadResolved "GeneratedImage list"
| ClickEdit GeneratedImage
| ClickRemoveImage nat
| ClickClear
| ConfirmClear
| ClickDelete GeneratedImage
| ConfirmDelete
| TimerFired timer
| SetPrompt string
| SetEditPrompt string
| SetResolution string
| SetAspectRatio string
| SetUploadedImages "UploadedImage list"
| SetPreviewImage "GeneratedImage option"

fun handler :: "(string \<Rightarrow> string) \<Rightarrow> event \<Rightarrow> studio \<Rightarrow> studio \<times> effect list" where
  "handler t ClickGenerate s = clickGenerate s"
| "handler t KeyCtrlEnter s = keyCtrlEnter s"
| "handler t KeyEscape s = keyEscape t s"
| "handler t ClickClose s = attemptCloseSidebar t s"
| "handler t (GenerateFulfilled p u now) s = handleGenerateFulfilled p u now s"
| "handler t (GenerateRejected m) s = handleGenerateRejected t m s"
| "handler t ClickStartEdit s = clickStartEdit s"
| "handler t (EditFulfilled p pv u now) s = executeEditFulfilled p pv u now s"
| "handler t (EditRejected m) s = executeEditRejected t m s"
| "handler t (LoadResolved savedItems) s = loadResolved savedItems s"
| "handler t (ClickEdit img) s = handleEdit img s"
| "handler t (ClickRemoveImage i) s = handleRemoveImage i s"
| "handler t ClickClear s = handleClearClick s"
| "handler t ConfirmClear s = confirmClearHistory s"
| "handler t (ClickDelete img) s = handleDeleteClick img s"
| "handler t ConfirmDelete s = confirmDelete s"
| "handler t (TimerFired k) s = timerFired k s"
| "handler t (SetPrompt v) s = (s\<lparr>promptText := v\<rparr>, [])"
| "handler t (SetEditPrompt v) s = (s\<lparr>editPrompt := v\<rparr>, [])"
| "handler t (SetResolution v) s = (s\<lparr>resolution := v\<rparr>, [])"
| "handler t (SetAspectRatio v) s = (s\<lparr>aspectRatio := v\<rparr>, [])"
| "handler t (SetUploadedImages v) s = (s\<lparr>uploadedImages := v\<rparr>, [])"
| "handler t (SetPreviewImage v) s = (s\<lparr>previewImage := v\<rparr>, [])"

definition step :: "(string \<Rightarrow> string) \<Rightarrow> event \<Rightarrow> studio \<Rightarrow> studio \<times> effect list" where
  "step t e s =
     (let (s1, effs) = handler t e s;
          (s2, effs') = afterRender s s1
      in (s2, effs @ effs'))"

fun run :: "(string \<Rightarrow> string) \<Rightarrow> studio \<Rightarrow> event list \<Rightarrow> studio \<times> effect list" where
  "run t s [] = (s, [])"
| "run t s (e # es) =
     (let (s1, effs) = step t e s;
          (s2, effs') = run t s1 es
      in (s2, effs @ effs'))"


text \<open>Vocabulary for the statements about runs of the component.\<close>

text \<open>The record that a successful generate or edit operation prepends to the history.\<close>

fun produced :: "event \<Rightarrow> GeneratedImage option" where
  "produced (GenerateFulfilled p u now) = Some \<lparr>url = u, prompt = p, timestamp = now\<rparr>"
| "produced (EditFulfilled p pv u now) = Some \<lparr>url = u, prompt = ''Edit: '' @ p, timestamp = now\<rparr>"
| "produced e = None"

text \<open>The events whose handler calls \<open>setHistory\<close> in the state it runs in.\<close>

fun mutation :: "studio \<Rightarrow> event \<Rightarrow> bool" where
  "mutation s (GenerateFulfilled p u now) = True"
| "mutation s (EditFulfilled p pv u now) = True"
| "mutation s (LoadResolved savedItems) = (savedItems \<noteq> [])"
| "mutation s ConfirmClear = True"
| "mutation s ConfirmDelete = (imageToDelete s \<noteq> None)"
| "mutation s e = False"

fun isLoad :: "event \<Rightarrow> bool" where
  "isLoad (LoadResolved savedItems) = True"
| "isLoad e = False"

fun isSave :: "effect \<Rightarrow> bool" where
  "isSave (SaveHistoryToDB h) = True"
| "isSave e = False"

fun isGenerateCall :: "effect \<Rightarrow> bool" where
  "isGenerateCall (CallGenerateImage p i r a) = True"
| "isGenerateCall e = False"

section \<open>Node-Graph Pipeline Evaluator (the WorkflowEditor component)\<close>

text \<open>
  The \<open>data\<close> object of a node. A field is \<open>None\<close> when the property is undefined or
  \<open>null\<close>. The fields are \<open>prompt\<close>, \<open>images\<close>, \<open>loading\<close>, \<open>resolution\<close>,
  \<open>aspectRatio\<close>, \<open>error\<close>, \<open>outputImage\<close> and \<open>image\<close> of the source, prefixed with
  \<open>d\<close>; the callbacks stored beside them and the position of a node are left out.
\<close>

record nodeData =
  dPrompt :: "string option"
  dImages :: "string list option"
  dLoading :: "bool option"
  dResolution :: "string option"
  dAspectRatio :: "string option"
  dError :: "string option"
  dOutputImage :: "string option"
  dImage :: "string option"

record node =
  nodeId :: string
  nodeType :: string
  nodeData :: nodeData

record edge =
  edgeId :: string
  source :: string
  target :: string
  sourceHandle :: "string option"
  targetHandle :: "string option"

text \<open>
  \<open>updateNodeData(id, newData)\<close>: the object \<open>newData\<close> is spread over the node's data,
  so it is the function that overwrites the fields it lists.
\<close>

definition updateNodeData :: "string \<Rightarrow> (nodeData \<Rightarrow> nodeData) \<Rightarrow> node list \<Rightarrow> node list" where
  "updateNodeData i newData nds =
     map (\<lambda>n. if nodeId n = i then n\<lparr>nodeData := newData (nodeData n)\<rparr> else n) nds"

text \<open>
  The body of the \<open>forEach\<close> over the edges into the generator; the pair is the variables
  \<open>prompt\<close> and \<open>inputImages\<close>.
\<close>

definition resolveEdge ::
  "node list \<Rightarrow> edge \<Rightarrow> string option \<times> string list \<Rightarrow> string option \<times> string list" where
  "resolveEdge currentNodes e acc =
     (case find (\<lambda>n. nodeId n = source e) currentNodes of
        None \<Rightarrow> acc
      | Some sourceNode \<Rightarrow>
          if nodeType sourceNode = ''promptNode''
          then (dPrompt (nodeData sourceNode), snd acc)
          else if nodeType sourceNode = ''imageNode''
          then (case dImages (nodeData sourceNode) of
                  Some imgs \<Rightarrow> (fst acc, snd acc @ imgs)
                | None \<Rightarrow> acc)
          else acc)"

definition resolveInputs :: "node list \<Rightarrow> edge list \<Rightarrow> node \<Rightarrow> string option \<times> string list" where
  "resolveInputs currentNodes currentEdges generatorNode =
     fold (resolveEdge currentNodes)
       (filter (\<lambda>e. target e = nodeId generatorNode) currentEdges) (Some [], [])"

text \<open>
  \<open>runGenerator\<close> up to its \<open>await\<close>: the new node list and the calls made to the
  Generation Request Client. The list read through \<open>nodesRef\<close> and the list that
  \<open>setNodes\<close> updates are the same list here. An undefined \<open>resolution\<close> or
  \<open>aspectRatio\<close> takes the default of the parameter of \<open>generateImage\<close>.
\<close>

definition runGenerator :: "node list \<Rightarrow> edge list \<Rightarrow> node list \<times> effect list" where
  "runGenerator currentNodes currentEdges =
     (case find (\<lambda>n. nodeType n = ''generatorNode'') currentNodes of
        None \<Rightarrow> (currentNodes, [])
      | Some generatorNode \<Rightarrow>
          (case fst (resolveInputs currentNodes currentEdges generatorNode) of
             None \<Rightarrow>
               (updateNodeData (nodeId generatorNode)
                  (\<lambda>d. d\<lparr>dError := Some ''No prompt provided''\<rparr>) currentNodes, [])
           | Some p \<Rightarrow>
               if p = [] then
                 (updateNodeData (nodeId generatorNode)
                    (\<lambda>d. d\<lparr>dError := Some ''No prompt provided''\<rparr>) currentNodes, [])
               else
                 (updateNodeData (nodeId generatorNode)
                    (\<lambda>d. d\<lparr>dLoading := Some True, dError := None\<rparr>) currentNodes,
                  [CallGenerateImage p
                     (take 1 (snd (resolveInputs currentNodes currentEdges generatorNode)))
                     (case dResolution (nodeData generatorNode) of None \<Rightarrow> ''1K'' | Some r \<Rightarrow> r)
                     (case dAspectRatio (nodeData generatorNode) of None \<Rightarrow> ''1:1'' | Some a \<Rightarrow> a)])))"

text \<open>The initial graph of the editor.\<close>

definition emptyData :: nodeData where
  "emptyData =
     \<lparr>dPrompt = None, dImages = None, dLoading = None, dResolution = None,
      dAspectRatio = None, dError = None, dOutputImage = None, dImage = None\<rparr>"

definition initialNodes :: "node list" where
  "initialNodes =
     [\<lparr>nodeId = ''1'', nodeType = ''promptNode'', nodeData = emptyData\<lparr>dPrompt := Some []\<rparr>\<rparr>,
      \<lparr>nodeId = ''img-1'', nodeType = ''imageNode'', nodeData = emptyData\<lparr>dImages := Some []\<rparr>\<rparr>,
      \<lparr>nodeId = ''2'', nodeType = ''generatorNode'',
       nodeData = emptyData\<lparr>dLoading := Some False, dResolution := Some ''1K'',
                            dAspectRatio := Some ''1:1''\<rparr>\<rparr>,
      \<lparr>nodeId = ''3'', nodeType = ''outputNode'', nodeData = emptyData\<rparr>]"

definition initialEdges :: "edge list" where
  "initialEdges =
     [\<lparr>edgeId = ''e1-2'', source = ''1'', target = ''2'', sourceHandle = None,
       targetHandle = Some ''prompt-in''\<rparr>,
      \<lparr>edgeId = ''eImg-2'', source = ''img-1'', target = ''2'', sourceHandle = None,
       targetHandle = Some ''image-in''\<rparr>,
      \<lparr>edgeId = ''e2-3'', source = ''2'', target = ''3'', sourceHandle = Some ''gen-out-main'',
       targetHandle = Some ''in''\<rparr>]"


section \<open>Sample inputs\<close>

definition sampleService :: service where
  "sampleService = \<lparr>apiKey = Some ''key'', remote = (\<lambda>req. Inr None), jsonMessage = (\<lambda>m. None)\<rparr>"

definition noKeyService :: service where
  "noKeyService = \<lparr>apiKey = None, remote = (\<lambda>req. Inr None), jsonMessage = (\<lambda>m. None)\<rparr>"

text \<open>
  The translation function for English on the keys the handlers use: \<open>errorGen\<close> has an
  entry, and a key without an entry, as \<open>waitEditCompletion\<close>, is returned as it is.
\<close>

definition english :: "string \<Rightarrow> string" where
  "english k = (if k = ''errorGen'' then ''Failed to generate image. Please try again.'' else k)"

definition fox :: GeneratedImage where
  "fox = \<lparr>url = ''data:image/png;base64,Rk9Y'', prompt = ''a red fox'', timestamp = 1700000000000\<rparr>"

definition owl :: GeneratedImage where
  "owl = \<lparr>url = ''data:image/png;base64,T1dM'', prompt = ''an owl'', timestamp = 1700000000000\<rparr>"

definition elk :: GeneratedImage where
  "elk = \<lparr>url = ''data:image/png;base64,RUxL'', prompt = ''an elk'', timestamp = 1700000000777\<rparr>"

definition elevenSuccesses :: "event list" where
  "elevenSuccesses =
     [GenerateFulfilled ''p1'' ''u1'' 1, GenerateFulfilled ''p2'' ''u2'' 2,
      EditFulfilled ''p3'' None ''u3'' 3, GenerateFulfilled ''p4'' ''u4'' 4,
      GenerateFulfilled ''p5'' ''u5'' 5, EditFulfilled ''p6'' None ''u6'' 6,
      GenerateFulfilled ''p7'' ''u7'' 7, GenerateFulfilled ''p8'' ''u8'' 8,
      GenerateFulfilled ''p9'' ''u9'' 9, EditFulfilled ''p10'' None ''u10'' 10,
      GenerateFulfilled ''p11'' ''u11'' 11]"

section \<open>The data-URL pattern\<close>

lemma splitBase64_sound:
  "splitBase64 pre s = Some (a, b) \<Longrightarrow>
     pre @ s = a @ '';base64,'' @ b \<and> a \<noteq> [] \<and> b \<noteq> [] \<and> length pre \<le> length a"
proof (induction s arbitrary: pre)
  case Nil
  then show ?case by simp
next
  case (Cons c cs)
  show ?case
  proof (cases "splitBase64 (pre @ [c]) cs")
    case (Some r)
    with Cons.prems have "splitBase64 (pre @ [c]) cs = Some (a, b)" by simp
    from Cons.IH [OF this] show ?thesis by simp
  next
    case None
    with Cons.prems have h: "pre \<noteq> []" "take 8 (c # cs) = '';base64,''" "drop 8 (c # cs) \<noteq> []"
      and ab: "a = pre" "b = drop 8 (c # cs)"
      by (auto split: if_splits)
    have "c # cs = take 8 (c # cs) @ drop 8 (c # cs)" by (simp only: append_take_drop_id)
    with h ab show ?thesis by simp
  qed
qed

lemma splitBase64_complete:
  "a \<noteq> [] \<Longrightarrow> b \<noteq> [] \<Longrightarrow> pre @ s = a @ '';base64,'' @ b \<Longrightarrow> length pre \<le> length a \<Longrightarrow>
     splitBase64 pre s \<noteq> None"
proof (induction s arbitrary: pre)
  case Nil
  then show ?case by (auto simp: append_eq_append_conv2)
next
  case (Cons c cs)
  show ?case
  proof (cases "length pre = length a")
    case True
    with Cons.prems have "pre = a" "c # cs = '';base64,'' @ b" by auto
    with Cons.prems show ?thesis by (auto split: option.splits)
  next
    case False
    with Cons.prems have "length (pre @ [c]) \<le> length a" by simp
    moreover have "(pre @ [c]) @ cs = a @ '';base64,'' @ b" using Cons.prems by simp
    ultimately have "splitBase64 (pre @ [c]) cs \<noteq> None" using Cons.IH Cons.prems by blast
    then show ?thesis by (auto split: option.splits)
  qed
qed

text \<open>
  \<open>matchDataUrl\<close> answers exactly on the strings of the shape
  \<open>data:<mime>;base64,<payload>\<close> with both groups non-empty and no line terminator.
\<close>

lemma matchDataUrl_sound:
  assumes m: "matchDataUrl s = Some (a, b)"
  shows "s = ''data:'' @ a @ '';base64,'' @ b \<and> a \<noteq> [] \<and> b \<noteq> [] \<and> \<not> list_ex lineTerminator s"
proof -
  from m have t: "take 5 s = ''data:''" and nl: "\<not> list_ex lineTerminator s"
    and sp: "splitBase64 [] (drop 5 s) = Some (a, b)"
    by (auto simp: matchDataUrl_def split: if_splits)
  from splitBase64_sound [OF sp] have d: "drop 5 s = a @ '';base64,'' @ b" and ne: "a \<noteq> []" "b \<noteq> []"
    by auto
  have "s = take 5 s @ drop 5 s" by (simp only: append_take_drop_id)
  with t d have "s = ''data:'' @ a @ '';base64,'' @ b" by simp
  with ne nl show ?thesis by simp
qed

lemma matchDataUrl_complete:
  assumes "a \<noteq> []" "b \<noteq> []" "\<not> list_ex lineTerminator a" "\<not> list_ex lineTerminator b"
  shows "matchDataUrl (''data:'' @ a @ '';base64,'' @ b) \<noteq> None"
proof -
  have "splitBase64 [] (a @ '';base64,'' @ b) \<noteq> None"
    using splitBase64_complete [of a b "[]" "a @ '';base64,'' @ b"] assms by simp
  moreover have "\<not> list_ex lineTerminator (''data:'' @ a @ '';base64,'' @ b)"
    using assms by (auto simp: lineTerminator_def list_ex_iff)
  ultimately show ?thesis by (simp add: matchDataUrl_def)
qed

section \<open>The Generation Request Client\<close>

lemma rethrow_invalid: "rethrow sv ''Invalid image data format'' = ''Invalid image data format''"
  by (simp add: rethrow_def)

lemma rethrow_no_key:
  "rethrow sv ''API Key not found in environment variables'' =
     ''API Key not found in environment variables''"
  by (simp add: rethrow_def)

text \<open>
  C5. \<open>generateImage\<close> dispatches no request when the API key is missing and exactly one
  request otherwise; the aspect ratio of that request is the requested one when it is one
  of 1:1, 3:4, 4:3, 9:16, 16:9, 21:9, and 1:1 otherwise. With a key, a request for 4:5
  dispatches 1:1 and a request for 16:9 dispatches 16:9.
\<close>

theorem generateImage_aspect_ratio:
  "map imageConfig (fst (generateImage sv p imgs res ar)) =
     (case getClient (apiKey sv) of
        Inl m \<Rightarrow> []
      | Inr k \<Rightarrow>
          [Some (res, if ar \<in> {''1:1'', ''3:4'', ''4:3'', ''9:16'', ''16:9'', ''21:9''}
                      then ar else ''1:1'')]) \<and>
   (apiKey sv = Some k \<and> k \<noteq> [] \<longrightarrow>
      map imageConfig (fst (generateImage sv p imgs res ''4:5'')) = [Some (res, ''1:1'')] \<and>
      map imageConfig (fst (generateImage sv p imgs res ''16:9'')) = [Some (res, ''16:9'')])"
  by (simp add: generateImage_def getClient_def validRatios_def Let_def split: sum.splits)

theorem generateImage_aspect_ratio_witness:
  "apiKey sampleService = Some ''key'' \<and> ''key'' \<noteq> [] \<and>
   map imageConfig (fst (generateImage sampleService ''a red fox'' [] ''1K'' ''4:5'')) =
     [Some (''1K'', ''1:1'')] \<and>
   map imageConfig (fst (generateImage sampleService ''a red fox'' [] ''1K'' ''16:9'')) =
     [Some (''1K'', ''16:9'')]"
  using generateImage_aspect_ratio [of sampleService "''a red fox''" "[]" "''1K''" "''4:5''" "''key''"]
  by (simp add: sampleService_def getClient_def)

text \<open>
  C9, as stated, fails: without an API key \<open>getClient\<close> throws first, and the error of
  \<open>editImage\<close> on a malformed source image carries the message of \<open>getClient\<close>.
\<close>

theorem editImage_invalid_counterexample:
  "matchDataUrl ''not-a-data-url'' = None \<and>
   editImage noKeyService ''make it blue'' ''not-a-data-url'' =
     ([], Inl ''API Key not found in environment variables'') \<and>
   snd (editImage noKeyService ''make it blue'' ''not-a-data-url'') \<noteq>
     Inl ''Invalid image data format''"
  by (simp add: matchDataUrl_def editImage_def getClient_def noKeyService_def rethrow_def)

text \<open>
  C9, amended. For every call to \<open>editImage\<close> whose source image does not match the
  data-URL shape, no remote request is dispatched and an error is thrown; its message is
  "Invalid image data format" when an API key is configured, and the message of
  \<open>getClient\<close> otherwise.
\<close>

theorem editImage_invalid:
  "matchDataUrl img = None \<Longrightarrow>
     fst (editImage sv p img) = [] \<and>
     snd (editImage sv p img) =
       Inl (case getClient (apiKey sv) of
              Inl m \<Rightarrow> ''API Key not found in environment variables''
            | Inr k \<Rightarrow> ''Invalid image data format'')"
  by (auto simp: editImage_def getClient_def rethrow_invalid rethrow_no_key
      split: sum.splits option.splits)

theorem editImage_invalid_witness:
  "matchDataUrl ''data:image/png;base64,'' = None \<and>
   editImage sampleService ''make it blue'' ''data:image/png;base64,'' =
     ([], Inl ''Invalid image data format'')"
  using editImage_invalid [of "''data:image/png;base64,''" sampleService "''make it blue''"]
  by (simp add: matchDataUrl_def sampleService_def getClient_def prod_eq_iff)

section \<open>The Durable History Store\<close>

lemma migrate_Bare:
  "map (\<lambda>(i, u). Structured u p (now i)) (enumerate n (map Bare xs)) =
   map (\<lambda>(i, u). Structured (Bare u) p (now i)) (enumerate n xs)"
  by (induction xs arbitrary: n) auto

lemma getHistory_legacy:
  "xs \<noteq> [] \<Longrightarrow>
     getHistoryFromDB now (ReadOk (Some (map Bare xs))) =
       map (\<lambda>(i, u). Structured (Bare u) ''Legacy Image'' (now i)) (enumerate 0 xs)"
  using migrate_Bare [of "''Legacy Image''" now 0 xs]
  by (cases xs) (simp_all add: getHistoryFromDB_def)

lemma getHistory_head: "getHistoryFromDB now r = x # xs \<Longrightarrow> \<not> isString x"
  by (auto simp: getHistoryFromDB_def Let_def enumerate_eq_zip
      split: dbRead.splits option.splits list.splits if_splits)

lemma getHistory_idem:
  "getHistoryFromDB now' (ReadOk (Some (getHistoryFromDB now r))) = getHistoryFromDB now r"
proof (cases "getHistoryFromDB now r")
  case Nil
  then show ?thesis by (simp add: getHistoryFromDB_def)
next
  case (Cons x xs)
  from getHistory_head [OF Cons] have "\<not> isString x" .
  with Cons show ?thesis by (simp add: getHistoryFromDB_def)
qed

text \<open>
  C4. Loading a stored non-empty list of \<open>k\<close> bare strings yields \<open>k\<close> structured records,
  the one at index \<open>i\<close> with the \<open>i\<close>-th string as \<open>url\<close> and the prompt "Legacy Image";
  loading a stored list whose first element is a structured record yields that list
  unchanged; and loading what a load returned yields the same again, whatever was stored
  and whatever the clock.
\<close>

theorem migration_idempotent:
  "(xs \<noteq> [] \<longrightarrow>
      length (getHistoryFromDB now (ReadOk (Some (map Bare xs)))) = length xs \<and>
      (\<forall>i < length xs.
         getHistoryFromDB now (ReadOk (Some (map Bare xs))) ! i =
           Structured (Bare (xs ! i)) ''Legacy Image'' (now i))) \<and>
   getHistoryFromDB now (ReadOk (Some (Structured u p ts # rest))) = Structured u p ts # rest \<and>
   getHistoryFromDB now' (ReadOk (Some (getHistoryFromDB now r))) = getHistoryFromDB now r"
proof (intro conjI impI)
  assume ne: "xs \<noteq> []"
  show "length (getHistoryFromDB now (ReadOk (Some (map Bare xs)))) = length xs"
    by (simp add: getHistory_legacy [OF ne])
  show "\<forall>i < length xs.
         getHistoryFromDB now (ReadOk (Some (map Bare xs))) ! i =
           Structured (Bare (xs ! i)) ''Legacy Image'' (now i)"
    by (simp add: getHistory_legacy [OF ne] nth_enumerate_eq)
next
  show "getHistoryFromDB now (ReadOk (Some (Structured u p ts # rest))) = Structured u p ts # rest"
    by (simp add: getHistoryFromDB_def)
next
  show "getHistoryFromDB now' (ReadOk (Some (getHistoryFromDB now r))) = getHistoryFromDB now r"
    by (rule getHistory_idem)
qed

theorem migration_idempotent_witness:
  "[''u0'', ''u1''] \<noteq> [] \<and>
   getHistoryFromDB (\<lambda>i. 1700000000000 + int i) (ReadOk (Some [Bare ''u0'', Bare ''u1''])) =
     [Structured (Bare ''u0'') ''Legacy Image'' 1700000000000,
      Structured (Bare ''u1'') ''Legacy Image'' 1700000000001] \<and>
   getHistoryFromDB (\<lambda>i. 5)
       (ReadOk (Some (getHistoryFromDB (\<lambda>i. 1700000000000 + int i)
                        (ReadOk (Some [Bare ''u0'', Bare ''u1''])))))
     = getHistoryFromDB (\<lambda>i. 1700000000000 + int i) (ReadOk (Some [Bare ''u0'', Bare ''u1'']))"
proof -
  have ne: "[''u0'', ''u1''] \<noteq> []" by simp
  have ev: "getHistoryFromDB (\<lambda>i. 1700000000000 + int i) (ReadOk (Some [Bare ''u0'', Bare ''u1''])) =
     [Structured (Bare ''u0'') ''Legacy Image'' 1700000000000,
      Structured (Bare ''u1'') ''Legacy Image'' 1700000000001]"
    by (simp add: getHistoryFromDB_def)
  from migration_idempotent [of "[''u0'', ''u1'']" "\<lambda>i. 1700000000000 + int i" _ _ _ _ "\<lambda>i. 5"
      "ReadOk (Some [Bare ''u0'', Bare ''u1''])"]
  show ?thesis using ne ev by simp
qed

section \<open>The Main Studio Controller\<close>

lemmas handler_defs =
  clickGenerate_def keyCtrlEnter_def keyEscape_def attemptCloseSidebar_def
  handleGenerate_def handleGenerateFulfilled_def handleGenerateRejected_def
  clickStartEdit_def executeEdit_def executeEditFulfilled_def executeEditRejected_def
  loadResolved_def handleEdit_def handleRemoveImage_def handleClearClick_def
  confirmClearHistory_def handleDeleteClick_def confirmDelete_def timerFired_def
  setHistory_def

lemma afterRender_history: "history (fst (afterRender old new)) = history new"
  by (simp add: afterRender_def loadingEffect_def split: prod.splits if_splits)

lemma afterRender_loaded: "isHistoryLoaded (fst (afterRender old new)) = isHistoryLoaded new"
  by (auto simp add: afterRender_def loadingEffect_def split: prod.splits if_splits)

lemma afterRender_uploaded: "uploadedImages (fst (afterRender old new)) = uploadedImages new"
  by (auto simp add: afterRender_def loadingEffect_def split: prod.splits if_splits)

lemma afterRender_sidebar: "isEditSidebarOpen (fst (afterRender old new)) = isEditSidebarOpen new"
  by (auto simp add: afterRender_def loadingEffect_def split: prod.splits if_splits)

lemma step_fst: "fst (step t e s) = fst (afterRender s (fst (handler t e s)))"
  by (simp add: step_def split: prod.splits)

lemma step_snd: "snd (step t e s) = snd (handler t e s) @ snd (afterRender s (fst (handler t e s)))"
  by (simp add: step_def split: prod.splits)

lemma step_history: "history (fst (step t e s)) = history (fst (handler t e s))"
  by (simp add: step_fst afterRender_history)

lemma handler_no_save: "\<not> list_ex isSave (snd (handler t e s))"
  by (cases e) (auto simp: handler_defs Let_def split: option.splits timer.splits)

lemma handler_loaded: "\<not> isLoad e \<Longrightarrow> isHistoryLoaded (fst (handler t e s)) = isHistoryLoaded s"
  by (cases e) (auto simp: handler_defs Let_def split: option.splits timer.splits)

lemma handler_loaded_mono: "isHistoryLoaded s \<Longrightarrow> isHistoryLoaded (fst (handler t e s))"
  by (cases e) (auto simp: handler_defs Let_def split: option.splits timer.splits)

lemma handler_historyRef:
  "history (fst (handler t e s)) \<noteq> history s \<Longrightarrow> historyRef (fst (handler t e s)) \<noteq> historyRef s"
  by (cases e) (auto simp: handler_defs Let_def split: option.splits timer.splits if_splits)

lemma mutation_historyRef:
  "mutation s e \<Longrightarrow> historyRef (fst (handler t e s)) \<noteq> historyRef s"
  by (cases e) (auto simp: handler_defs Let_def split: option.splits)

text \<open>\<open>mutation\<close> names exactly the steps that call \<open>setHistory\<close>.\<close>

lemma handler_unmutated:
  "\<not> mutation s e \<Longrightarrow>
     history (fst (handler t e s)) = history s \<and> historyRef (fst (handler t e s)) = historyRef s"
  by (cases e) (auto simp: handler_defs Let_def split: option.splits timer.splits)

lemma handler_bound: "length (history s) \<le> 10 \<Longrightarrow> length (history (fst (handler t e s))) \<le> 10"
  by (cases e)
    (auto simp: handler_defs Let_def intro: le_trans [OF length_filter_le]
      split: option.splits timer.splits if_splits)

lemma afterRender_saves: "list_ex isSave (snd (afterRender old new)) \<Longrightarrow> isHistoryLoaded new"
  by (auto simp: afterRender_def loadingEffect_def saveEffect_def split: prod.splits if_splits)

lemma afterRender_save:
  "isHistoryLoaded new \<Longrightarrow> historyRef new \<noteq> historyRef old \<Longrightarrow>
     SaveHistoryToDB (history new) \<in> set (snd (afterRender old new))"
  by (auto simp: afterRender_def loadingEffect_def saveEffect_def split: prod.splits if_splits)

lemma step_unloaded:
  assumes "\<not> isHistoryLoaded s" "\<not> isLoad e"
  shows "\<not> isHistoryLoaded (fst (step t e s))" and "\<not> list_ex isSave (snd (step t e s))"
proof -
  from assms have u: "\<not> isHistoryLoaded (fst (handler t e s))" by (simp add: handler_loaded)
  then show "\<not> isHistoryLoaded (fst (step t e s))" by (simp add: step_fst afterRender_loaded)
  from u have "\<not> list_ex isSave (snd (afterRender s (fst (handler t e s))))"
    using afterRender_saves by blast
  then show "\<not> list_ex isSave (snd (step t e s))"
    using handler_no_save [of t e s] by (auto simp: step_snd list_ex_iff)
qed

lemma run_unloaded:
  "\<not> isHistoryLoaded s \<Longrightarrow> \<not> list_ex isLoad evs \<Longrightarrow> \<not> list_ex isSave (snd (run t s evs))"
proof (induction evs arbitrary: s)
  case Nil
  then show ?case by simp
next
  case (Cons e es)
  from Cons.prems have ne: "\<not> isLoad e" and nes: "\<not> list_ex isLoad es" by simp_all
  from step_unloaded [OF Cons.prems(1) ne, of t]
  have a: "\<not> isHistoryLoaded (fst (step t e s))" and b: "\<not> list_ex isSave (snd (step t e s))" .
  from Cons.IH [OF a nes] have "\<not> list_ex isSave (snd (run t (fst (step t e s)) es))" .
  with b show ?case by (simp add: split_beta Let_def)
qed

lemma step_save:
  assumes "isHistoryLoaded s" "historyRef (fst (handler t e s)) \<noteq> historyRef s"
  shows "SaveHistoryToDB (history (fst (step t e s))) \<in> set (snd (step t e s))"
proof -
  have "isHistoryLoaded (fst (handler t e s))" using assms(1) by (rule handler_loaded_mono)
  then have "SaveHistoryToDB (history (fst (handler t e s))) \<in>
      set (snd (afterRender s (fst (handler t e s))))"
    using assms(2) by (rule afterRender_save)
  then show ?thesis by (simp add: step_snd step_history)
qed

lemma take_append_take: "take n (xs @ take n ys) = take n (xs @ ys)"
  by (simp add: min_def)

lemma success_history:
  "produced e = Some img \<Longrightarrow> history (fst (step t e s)) = take 10 (img # history s)"
  by (cases e) (auto simp: step_history handler_defs Let_def)

lemma run_success_history:
  "\<forall>e \<in> set evs. produced e \<noteq> None \<Longrightarrow> evs \<noteq> [] \<Longrightarrow>
     history (fst (run t s evs)) = take 10 (rev (List.map_filter produced evs) @ history s)"
proof (induction evs arbitrary: s)
  case Nil
  then show ?case by simp
next
  case (Cons e es)
  then obtain img where img: "produced e = Some img" by auto
  show ?case
  proof (cases "es = []")
    case True
    then show ?thesis
      by (simp add: split_beta Let_def success_history [OF img] img)
  next
    case False
    have "history (fst (run t s (e # es))) = history (fst (run t (fst (step t e s)) es))"
      by (simp add: split_beta Let_def)
    also have "\<dots> = take 10 (rev (List.map_filter produced es) @ history (fst (step t e s)))"
      using Cons False by simp
    also have "\<dots> = take 10 (rev (List.map_filter produced es) @ img # history s)"
      by (simp only: success_history [OF img] take_append_take)
    finally show ?thesis using img by simp
  qed
qed

lemma map_filter_length:
  "\<forall>e \<in> set evs. produced e \<noteq> None \<Longrightarrow> length (List.map_filter produced evs) = length evs"
  by (induction evs) auto

text \<open>
  The guard against a second submission is in the triggers: \<open>handleGenerate\<close> itself
  checks the prompt only, and dispatches whenever the prompt is not blank.
\<close>

lemma handleGenerate_unguarded:
  "trim (promptText s) \<noteq> [] \<Longrightarrow> list_ex isGenerateCall (snd (handleGenerate s))"
  by (simp add: handleGenerate_def)

lemma handler_no_generate: "loading s \<Longrightarrow> \<not> list_ex isGenerateCall (snd (handler t e s))"
  by (cases e) (auto simp: handler_defs Let_def split: option.splits timer.splits)

lemma afterRender_no_generate: "\<not> list_ex isGenerateCall (snd (afterRender old new))"
  by (auto simp: afterRender_def loadingEffect_def saveEffect_def split: prod.splits if_splits)

text \<open>
  C1. While \<open>loading\<close> is set, a click on the generate button and Ctrl+Enter with the edit
  sidebar closed (the two ways to submit a generation) leave the state as it is and have no
  effect at all, and no step of the component, whatever the event, calls \<open>generateImage\<close>.
\<close>

theorem single_flight:
  "loading s \<Longrightarrow>
     step t ClickGenerate s = (s, []) \<and>
     (\<not> isEditSidebarOpen s \<longrightarrow> step t KeyCtrlEnter s = (s, [])) \<and>
     \<not> list_ex isGenerateCall (snd (step t e s))"
proof (intro conjI)
  assume l: "loading s"
  then show "step t ClickGenerate s = (s, [])"
    by (simp add: step_def clickGenerate_def afterRender_def loadingEffect_def saveEffect_def)
  from l show "\<not> isEditSidebarOpen s \<longrightarrow> step t KeyCtrlEnter s = (s, [])"
    by (simp add: step_def keyCtrlEnter_def afterRender_def loadingEffect_def saveEffect_def)
  from l show "\<not> list_ex isGenerateCall (snd (step t e s))"
    using handler_no_generate [of s t e] afterRender_no_generate [of s "fst (handler t e s)"]
    by (simp add: step_snd)
qed

theorem single_flight_witness:
  "loading (fst (step english ClickGenerate (initial\<lparr>promptText := ''a red fox''\<rparr>))) \<and>
   snd (step english ClickGenerate (initial\<lparr>promptText := ''a red fox''\<rparr>)) =
     [CallGenerateImage ''a red fox'' [] ''1K'' ''1:1'', SetTimeout 30000 ServerBusy] \<and>
   step english ClickGenerate (fst (step english ClickGenerate (initial\<lparr>promptText := ''a red fox''\<rparr>))) =
     (fst (step english ClickGenerate (initial\<lparr>promptText := ''a red fox''\<rparr>)), []) \<and>
   step english KeyCtrlEnter (fst (step english ClickGenerate (initial\<lparr>promptText := ''a red fox''\<rparr>))) =
     (fst (step english ClickGenerate (initial\<lparr>promptText := ''a red fox''\<rparr>)), [])"
proof -
  let ?s = "fst (step english ClickGenerate (initial\<lparr>promptText := ''a red fox''\<rparr>))"
  have tr: "trim ''a red fox'' \<noteq> []" by (simp add: trim_def whiteSpace_def)
  have l: "loading ?s" and o: "\<not> isEditSidebarOpen ?s"
    and c: "snd (step english ClickGenerate (initial\<lparr>promptText := ''a red fox''\<rparr>)) =
     [CallGenerateImage ''a red fox'' [] ''1K'' ''1:1'', SetTimeout 30000 ServerBusy]"
    using tr by (simp_all add: step_def clickGenerate_def handleGenerate_def afterRender_def
        loadingEffect_def saveEffect_def initial_def)
  from single_flight [OF l, of english KeyCtrlEnter] l o c show ?thesis by simp
qed

text \<open>
  C2, as stated, fails: a successful generation leaves a staged reference image in the
  staging list.
\<close>

theorem staging_cleared_counterexample:
  "uploadedImages
     (fst (step english (GenerateFulfilled ''a red fox'' ''data:image/png;base64,Rk9Y'' 1700000000000)
        (initial\<lparr>promptText := ''a red fox'', loading := True,
                 uploadedImages := [\<lparr>uploadUrl = ''data:image/jpeg;base64,UkVG'', uploadSize = ''3 B''\<rparr>]\<rparr>)))
   = [\<lparr>uploadUrl = ''data:image/jpeg;base64,UkVG'', uploadSize = ''3 B''\<rparr>]"
  by (simp add: step_def handleGenerateFulfilled_def setHistory_def afterRender_def
      loadingEffect_def saveEffect_def initial_def Let_def)

text \<open>
  C2, amended. After every successful generate operation the staging list is what it was
  before, whatever its length.
\<close>

theorem staging_kept:
  "uploadedImages (fst (step t (GenerateFulfilled p u now) s)) = uploadedImages s"
  by (simp add: step_fst afterRender_uploaded handleGenerateFulfilled_def setHistory_def Let_def)

text \<open>The staging list is cleared by a successful edit operation.\<close>

lemma staging_cleared_by_edit:
  "uploadedImages (fst (step t (EditFulfilled p pv u now) s)) = []"
  by (simp add: step_fst afterRender_uploaded executeEditFulfilled_def setHistory_def Let_def)

text \<open>
  C3. After more than ten successful generate or edit operations in a row, from any
  history, the history is the ten most recent of the records they produced, most recent
  first, and has exactly ten entries; and after every step of the component, the appends,
  the deletion, the clearing and the load among them, a history of at most ten entries
  still has at most ten.
\<close>

theorem bounded_history:
  "((\<forall>e \<in> set evs. produced e \<noteq> None) \<and> 10 < length evs \<longrightarrow>
      history (fst (run t s evs)) = take 10 (rev (List.map_filter produced evs)) \<and>
      length (history (fst (run t s evs))) = 10) \<and>
   (length (history s) \<le> 10 \<longrightarrow> length (history (fst (step t e s))) \<le> 10)"
proof (intro conjI impI)
  assume a: "(\<forall>e \<in> set evs. produced e \<noteq> None) \<and> 10 < length evs"
  then have ok: "\<forall>e \<in> set evs. produced e \<noteq> None" and n: "10 < length evs" by simp_all
  from n have "evs \<noteq> []" by auto
  from run_success_history [OF ok this]
  have h: "history (fst (run t s evs)) = take 10 (rev (List.map_filter produced evs) @ history s)" .
  have l: "10 < length (rev (List.map_filter produced evs))"
    using n map_filter_length [OF ok] by simp
  from h l show "history (fst (run t s evs)) = take 10 (rev (List.map_filter produced evs))"
    by simp
  from h l show "length (history (fst (run t s evs))) = 10" by simp
next
  assume "length (history s) \<le> 10"
  then show "length (history (fst (step t e s))) \<le> 10"
    by (simp add: step_history handler_bound)
qed

theorem bounded_history_witness:
  "list_all (\<lambda>e. produced e \<noteq> None) elevenSuccesses \<and> 10 < length elevenSuccesses \<and>
   map timestamp (history (fst (run english initial elevenSuccesses))) =
     [11, 10, 9, 8, 7, 6, 5, 4, 3, 2] \<and>
   length (history initial) \<le> 10 \<and>
   length (history (fst (step english ConfirmClear initial))) \<le> 10"
proof -
  have a: "(\<forall>e \<in> set elevenSuccesses. produced e \<noteq> None) \<and> 10 < length elevenSuccesses"
    by (simp add: elevenSuccesses_def)
  have b: "length (history initial) \<le> 10" by (simp add: initial_def)
  have c: "map timestamp (take 10 (rev (List.map_filter produced elevenSuccesses))) =
     [11, 10, 9, 8, 7, 6, 5, 4, 3, 2]"
    by (simp add: elevenSuccesses_def List.map_filter_def)
  from bounded_history [of elevenSuccesses english initial ConfirmClear] a b c
  show ?thesis by (simp add: list_all_iff)
qed

text \<open>
  C10. Confirmed deletion leaves exactly the entries whose timestamp differs from the
  target's, in their order: no entry with the target's timestamp remains, every other
  entry remains, and the new history is a subsequence of the old one.
\<close>

theorem delete_by_timestamp:
  "imageToDelete s = Some tgt \<Longrightarrow>
     history (fst (step t ConfirmDelete s)) =
       filter (\<lambda>item. timestamp item \<noteq> timestamp tgt) (history s) \<and>
     (\<forall>item \<in> set (history (fst (step t ConfirmDelete s))). timestamp item \<noteq> timestamp tgt) \<and>
     (\<forall>item \<in> set (history s).
        timestamp item \<noteq> timestamp tgt \<longrightarrow> item \<in> set (history (fst (step t ConfirmDelete s)))) \<and>
     subseq (history (fst (step t ConfirmDelete s))) (history s)"
  by (auto simp: step_history confirmDelete_def setHistory_def)

theorem delete_by_timestamp_witness:
  "imageToDelete (initial\<lparr>history := [elk, owl, fox], imageToDelete := Some fox\<rparr>) = Some fox \<and>
   timestamp owl = timestamp fox \<and>
   history (fst (step english ConfirmDelete
                   (initial\<lparr>history := [elk, owl, fox], imageToDelete := Some fox\<rparr>))) = [elk]"
proof -
  have a: "imageToDelete (initial\<lparr>history := [elk, owl, fox], imageToDelete := Some fox\<rparr>) = Some fox"
    by simp
  from delete_by_timestamp [OF a, of english] show ?thesis
    by (simp add: fox_def owl_def elk_def)
qed

section \<open>The Edit Session\<close>

text \<open>
  C6. While \<open>isEditing\<close> holds, a close request changes nothing but the warning (the
  message is set and the warning toast shown), so the sidebar stays as it was, through
  the close button, the backdrop and the Escape key alike; while \<open>isEditing\<close> does not
  hold, the sidebar is closed after the request.
\<close>

theorem close_guard:
  "(isEditing s \<longrightarrow>
      fst (attemptCloseSidebar t s) =
        s\<lparr>warningMsg := t ''waitEditCompletion'', showWarningToast := True\<rparr> \<and>
      isEditSidebarOpen (fst (step t ClickClose s)) = isEditSidebarOpen s \<and>
      isEditSidebarOpen (fst (step t KeyEscape s)) = isEditSidebarOpen s) \<and>
   (\<not> isEditing s \<longrightarrow>
      \<not> isEditSidebarOpen (fst (attemptCloseSidebar t s)) \<and>
      \<not> isEditSidebarOpen (fst (step t ClickClose s)) \<and>
      \<not> isEditSidebarOpen (fst (step t KeyEscape s)))"
  by (auto simp: step_fst afterRender_sidebar attemptCloseSidebar_def keyEscape_def)

theorem close_guard_witness:
  "isEditing (initial\<lparr>isEditSidebarOpen := True, isEditing := True\<rparr>) \<and>
   isEditSidebarOpen (fst (step english ClickClose (initial\<lparr>isEditSidebarOpen := True, isEditing := True\<rparr>))) \<and>
   showWarningToast (fst (attemptCloseSidebar english (initial\<lparr>isEditSidebarOpen := True, isEditing := True\<rparr>))) \<and>
   \<not> isEditing (initial\<lparr>isEditSidebarOpen := True\<rparr>) \<and>
   \<not> isEditSidebarOpen (fst (step english ClickClose (initial\<lparr>isEditSidebarOpen := True\<rparr>)))"
  using close_guard [of "initial\<lparr>isEditSidebarOpen := True, isEditing := True\<rparr>" english]
    close_guard [of "initial\<lparr>isEditSidebarOpen := True\<rparr>" english]
  by (simp add: initial_def)

section \<open>Persistence of the history\<close>

text \<open>
  C7. From a state in which the load has not completed, a run without a load completion
  issues no \<open>saveHistoryToDB\<close>; and once the load has completed, every step that calls
  \<open>setHistory\<close>, and every step that changes the history, issues \<open>saveHistoryToDB\<close> with
  the history as it is after the step.
\<close>

theorem persistence_after_load:
  "(\<not> isHistoryLoaded s \<and> \<not> list_ex isLoad evs \<longrightarrow> \<not> list_ex isSave (snd (run t s evs))) \<and>
   (isHistoryLoaded s \<and> mutation s e \<longrightarrow>
      SaveHistoryToDB (history (fst (step t e s))) \<in> set (snd (step t e s))) \<and>
   (isHistoryLoaded s \<and> history (fst (step t e s)) \<noteq> history s \<longrightarrow>
      SaveHistoryToDB (history (fst (step t e s))) \<in> set (snd (step t e s)))"
proof (intro conjI impI)
  assume "\<not> isHistoryLoaded s \<and> \<not> list_ex isLoad evs"
  then show "\<not> list_ex isSave (snd (run t s evs))" by (simp add: run_unloaded)
next
  assume a: "isHistoryLoaded s \<and> mutation s e"
  then have "historyRef (fst (handler t e s)) \<noteq> historyRef s" by (simp add: mutation_historyRef)
  with a show "SaveHistoryToDB (history (fst (step t e s))) \<in> set (snd (step t e s))"
    by (simp add: step_save)
next
  assume a: "isHistoryLoaded s \<and> history (fst (step t e s)) \<noteq> history s"
  then have "history (fst (handler t e s)) \<noteq> history s" by (simp add: step_history)
  then have "historyRef (fst (handler t e s)) \<noteq> historyRef s" by (rule handler_historyRef)
  with a show "SaveHistoryToDB (history (fst (step t e s))) \<in> set (snd (step t e s))"
    by (simp add: step_save)
qed

text \<open>
  The statement is about \<open>saveHistoryToDB\<close>. The clearing of the store by
  \<open>confirmClearHistory\<close> is a request of its own, which the flag does not guard.
\<close>

lemma clear_before_load: "snd (step t ConfirmClear initial) = [ClearStore]"
  by (simp add: step_snd confirmClearHistory_def setHistory_def afterRender_def
      loadingEffect_def saveEffect_def initial_def)

theorem persistence_after_load_witness:
  "\<not> isHistoryLoaded initial \<and>
   \<not> list_ex isLoad [SetPrompt ''a red fox'', ClickGenerate,
                     GenerateFulfilled ''a red fox'' ''data:image/png;base64,Rk9Y'' 1700000000000] \<and>
   \<not> list_ex isSave (snd (run english initial
       [SetPrompt ''a red fox'', ClickGenerate,
        GenerateFulfilled ''a red fox'' ''data:image/png;base64,Rk9Y'' 1700000000000])) \<and>
   isHistoryLoaded (fst (step english (LoadResolved [owl]) initial)) \<and>
   mutation (fst (step english (LoadResolved [owl]) initial)) ConfirmClear \<and>
   history (fst (step english ConfirmClear (fst (step english (LoadResolved [owl]) initial)))) \<noteq>
     history (fst (step english (LoadResolved [owl]) initial)) \<and>
   snd (step english ConfirmClear (fst (step english (LoadResolved [owl]) initial))) =
     [ClearStore, SaveHistoryToDB []]"
proof -
  let ?evs = "[SetPrompt ''a red fox'', ClickGenerate,
        GenerateFulfilled ''a red fox'' ''data:image/png;base64,Rk9Y'' 1700000000000]"
  let ?s = "fst (step english (LoadResolved [owl]) initial)"
  have a: "\<not> isHistoryLoaded initial \<and> \<not> list_ex isLoad ?evs" by (simp add: initial_def)
  have b: "isHistoryLoaded ?s" "mutation ?s ConfirmClear"
    by (simp_all add: step_fst afterRender_loaded loadResolved_def)
  have h: "history ?s = [owl]"
    by (simp add: step_history loadResolved_def setHistory_def)
  have c: "history (fst (step english ConfirmClear ?s)) = []"
    by (simp add: step_history confirmClearHistory_def setHistory_def)
  have d: "snd (step english ConfirmClear ?s) = [ClearStore, SaveHistoryToDB []]"
    using b(1) by (simp add: step_snd confirmClearHistory_def setHistory_def afterRender_def
        loadingEffect_def saveEffect_def)
  from persistence_after_load [of initial ?evs english] persistence_after_load [of ?s "[]" english ConfirmClear]
    a b h c d
  show ?thesis by simp
qed

section \<open>The Pipeline Evaluator\<close>

lemma find_mem: "find P xs = Some x \<Longrightarrow> x \<in> set xs \<and> P x"
  by (induction xs) (auto split: if_splits)

lemma runGenerator_no_prompt:
  assumes g: "find (\<lambda>n. nodeType n = ''generatorNode'') nodes = Some g"
    and p: "fst (resolveInputs nodes edges g) = None \<or> fst (resolveInputs nodes edges g) = Some []"
  shows "runGenerator nodes edges =
           (updateNodeData (nodeId g) (\<lambda>d. d\<lparr>dError := Some ''No prompt provided''\<rparr>) nodes, [])"
  using g p by (auto simp: runGenerator_def split: option.splits)

text \<open>
  C8. When the graph has a generator node and resolving the edges into it yields no prompt
  text (an undefined or empty prompt), \<open>runGenerator\<close> calls the Generation Request Client
  not at all, sets \<open>error\<close> to "No prompt provided" in the data of the generator node,
  whose other fields it keeps, and leaves every node with another identifier as it was.
\<close>

theorem generator_fail_fast:
  assumes g: "find (\<lambda>n. nodeType n = ''generatorNode'') nodes = Some g"
    and p: "fst (resolveInputs nodes edges g) = None \<or> fst (resolveInputs nodes edges g) = Some []"
  shows "snd (runGenerator nodes edges) = [] \<and>
         g \<in> set nodes \<and>
         length (fst (runGenerator nodes edges)) = length nodes \<and>
         (\<forall>i < length nodes.
            (nodeId (nodes ! i) = nodeId g \<longrightarrow>
               fst (runGenerator nodes edges) ! i =
                 (nodes ! i)\<lparr>nodeData := (nodeData (nodes ! i))\<lparr>dError := Some ''No prompt provided''\<rparr>\<rparr>) \<and>
            (nodeId (nodes ! i) \<noteq> nodeId g \<longrightarrow> fst (runGenerator nodes edges) ! i = nodes ! i))"
  using find_mem [OF g] by (simp add: runGenerator_no_prompt [OF g p] updateNodeData_def)

theorem generator_fail_fast_witness:
  "find (\<lambda>n. nodeType n = ''generatorNode'') initialNodes = Some (initialNodes ! 2) \<and>
   fst (resolveInputs initialNodes initialEdges (initialNodes ! 2)) = Some [] \<and>
   snd (runGenerator initialNodes initialEdges) = [] \<and>
   dError (nodeData (fst (runGenerator initialNodes initialEdges) ! 2)) = Some ''No prompt provided'' \<and>
   fst (runGenerator initialNodes initialEdges) ! 0 = initialNodes ! 0"
proof -
  have g: "find (\<lambda>n. nodeType n = ''generatorNode'') initialNodes = Some (initialNodes ! 2)"
    by (simp add: initialNodes_def)
  have q: "fst (resolveInputs initialNodes initialEdges (initialNodes ! 2)) = Some []"
    by (simp add: resolveInputs_def resolveEdge_def initialNodes_def initialEdges_def emptyData_def)
  then have p: "fst (resolveInputs initialNodes initialEdges (initialNodes ! 2)) = None \<or>
           fst (resolveInputs initialNodes initialEdges (initialNodes ! 2)) = Some []"
    by simp
  have l: "length initialNodes = 4" by (simp add: initialNodes_def)
  have i: "nodeId (initialNodes ! 0) \<noteq> nodeId (initialNodes ! 2)" by (simp add: initialNodes_def)
  from generator_fail_fast [OF g p] g q l i show ?thesis by simp
qed

end
